theory Spec2Isabelle
  imports Complex_Main "HOL-Library.AList"
begin

section \<open>Python values\<close>

text \<open>
  The service exchanges JSON documents. Flask's \<^verbatim>\<open>request.get_json()\<close> and
  \<^verbatim>\<open>response.json()\<close> turn a document into Python objects: \<^verbatim>\<open>None\<close>, a bool, an int,
  a float, a str, a list or a dict. A float is kept as the real it denotes, or one of the
  three non-finite values that Python's json module reads (\<^verbatim>\<open>Infinity\<close>, \<^verbatim>\<open>-Infinity\<close>,
  \<^verbatim>\<open>NaN\<close>). A dict is an association list in insertion order, as Python keeps it.
\<close>

datatype pyfloat = Finite real | PosInf | NegInf | NaN

datatype pynum = PyInt int | PyFloat pyfloat

datatype json =
    JNull
  | JBool bool
  | JNum pynum
  | JStr string
  | JArr "json list"
  | JObj "(string \<times> json) list"

text \<open>The exceptions the modelled code can raise.\<close>

datatype py_error =
    TypeError
  | AttributeError
  | OverflowError
  | ZeroDivisionError
  | StoreError string

text \<open>Python's truth value of an object (\<^verbatim>\<open>not bounds\<close>, \<^verbatim>\<open>x or 0\<close>).\<close>

fun float_truthy :: "pyfloat \<Rightarrow> bool" where
  "float_truthy (Finite r) = (r \<noteq> 0)"
| "float_truthy PosInf = True"
| "float_truthy NegInf = True"
| "float_truthy NaN = True"

fun truthy :: "json \<Rightarrow> bool" where
  "truthy JNull = False"
| "truthy (JBool b) = b"
| "truthy (JNum (PyInt i)) = (i \<noteq> 0)"
| "truthy (JNum (PyFloat f)) = float_truthy f"
| "truthy (JStr s) = (s \<noteq> [])"
| "truthy (JArr xs) = (xs \<noteq> [])"
| "truthy (JObj kvs) = (kvs \<noteq> [])"

text \<open>
  \<^verbatim>\<open>d.get(k, default)\<close>: only a dict has the method; on any other object the attribute
  lookup raises \<^verbatim>\<open>AttributeError\<close>. \<^verbatim>\<open>d.get(k)\<close> is \<^verbatim>\<open>d.get(k, None)\<close>.
\<close>

fun dict_get_default :: "json \<Rightarrow> string \<Rightarrow> json \<Rightarrow> py_error + json" where
  "dict_get_default (JObj kvs) k d = Inr (case map_of kvs k of None \<Rightarrow> d | Some v \<Rightarrow> v)"
| "dict_get_default _ k d = Inl AttributeError"

definition dict_get :: "json \<Rightarrow> string \<Rightarrow> py_error + json" where
  "dict_get obj k = dict_get_default obj k JNull"

text \<open>
  \<^verbatim>\<open>obj[k] = v\<close> with a string key: a dict replaces the value of a key it has (keeping
  its place) or appends the key; a list, a str, a number, a bool and \<^verbatim>\<open>None\<close> raise
  \<^verbatim>\<open>TypeError\<close>.
\<close>

fun set_item :: "json \<Rightarrow> string \<Rightarrow> json \<Rightarrow> py_error + json" where
  "set_item (JObj kvs) k v = Inr (JObj (AList.update k v kvs))"
| "set_item _ k v = Inl TypeError"

section \<open>The view-state register (tile\_server.py)\<close>

text \<open>
  \<^verbatim>\<open>current_stats = {'count': 0, 'area': 0, 'bounds': None}\<close>: the module-level dict that
  \<^verbatim>\<open>update_view\<close> writes and \<^verbatim>\<open>get_bounds\<close> reads.
\<close>

record current_stats =
  count :: json
  area :: json
  bounds :: json

definition current_stats_init :: current_stats where
  "current_stats_init =
     \<lparr>count = JNum (PyInt 0), area = JNum (PyInt 0), bounds = JNull\<rparr>"

text \<open>
  A response of the service: the HTTP status, the body, the \<^verbatim>\<open>mimetype\<close> argument and the
  headers the handler sets itself. \<^verbatim>\<open>Response(...)\<close> and \<^verbatim>\<open>jsonify(...)\<close> answer with status
  200 unless the handler returns another one beside them.
\<close>

datatype body = Bytes string | Json json

record response =
  status :: nat
  content :: body
  mimetype :: string
  headers :: "(string \<times> string) list"

definition jsonify :: "json \<Rightarrow> response" where
  "jsonify doc = \<lparr>status = 200, content = Json doc, mimetype = ''application/json'', headers = []\<rparr>"

definition no_bounds_response :: response where
  "no_bounds_response =
     (jsonify (JObj [(''status'', JStr ''error''), (''message'', JStr ''No bounds provided'')]))
       \<lparr>status := 400\<rparr>"

definition ok_response :: response where
  "ok_response = jsonify (JObj [(''status'', JStr ''ok'')])"

text \<open>
  \<^verbatim>\<open>update_view\<close>, given the parsed request body \<^verbatim>\<open>data\<close>. The result is the response, or
  the exception that leaves the handler (Flask answers it with a 500), and the register
  afterwards.
\<close>

definition update_view :: "current_stats \<Rightarrow> json \<Rightarrow> (py_error + response) \<times> current_stats" where
  "update_view cs data =
     (case dict_get data ''bounds'' of
        Inl e \<Rightarrow> (Inl e, cs)
      | Inr b \<Rightarrow>
          (case dict_get data ''zoom'' of
             Inl e \<Rightarrow> (Inl e, cs)
           | Inr zoom \<Rightarrow>
               if \<not> truthy b then (Inr no_bounds_response, cs)
               else
                 (case set_item b ''zoom'' zoom of
                    Inl e \<Rightarrow> (Inl e, cs)
                  | Inr b' \<Rightarrow> (Inr ok_response, cs\<lparr>bounds := b'\<rparr>))))"

text \<open>\<^verbatim>\<open>get_bounds\<close>: \<^verbatim>\<open>jsonify({'bounds': current_stats.get('bounds')})\<close>.\<close>

definition get_bounds :: "current_stats \<Rightarrow> response" where
  "get_bounds cs = jsonify (JObj [(''bounds'', bounds cs)])"

text \<open>
  The requests that reach the register, served one after the other from the state the
  module starts in. Every other route (\<^verbatim>\<open>/tiles\<close>, \<^verbatim>\<open>/health\<close>, \<^verbatim>\<open>/\<close>) leaves
  \<^verbatim>\<open>current_stats\<close> alone.
\<close>

datatype request = PostUpdateView json | GetBounds | OtherRoute

fun handle :: "current_stats \<Rightarrow> request \<Rightarrow> current_stats" where
  "handle cs (PostUpdateView data) = snd (update_view cs data)"
| "handle cs GetBounds = cs"
| "handle cs OtherRoute = cs"

definition serve :: "request list \<Rightarrow> current_stats" where
  "serve reqs = foldl handle current_stats_init reqs"

subsection \<open>What the interface description says of the register\<close>

text \<open>
  The value of a key of a JSON object, \<^verbatim>\<open>null\<close> when the object has no such key.
\<close>

definition lookup_or_null :: "(string \<times> json) list \<Rightarrow> string \<Rightarrow> json" where
  "lookup_or_null kvs k = (case map_of kvs k of None \<Rightarrow> JNull | Some v \<Rightarrow> v)"

text \<open>
  A request body lacks a bounds value when it is no object, has no key \<^verbatim>\<open>bounds\<close>, or
  has \<^verbatim>\<open>null\<close> there.
\<close>

fun lacks_bounds :: "json \<Rightarrow> bool" where
  "lacks_bounds (JObj kvs) = (lookup_or_null kvs ''bounds'' = JNull)"
| "lacks_bounds _ = True"

text \<open>
  The view a request body submits: its bounds object with the body's zoom under the key
  \<^verbatim>\<open>zoom\<close> (\<^verbatim>\<open>null\<close> when the body has none). A body whose bounds are no non-empty object
  submits nothing.
\<close>

fun submitted :: "json \<Rightarrow> json option" where
  "submitted (JObj kvs) =
     (case lookup_or_null kvs ''bounds'' of
        JObj bs \<Rightarrow>
          if bs = [] then None
          else Some (JObj (AList.update ''zoom'' (lookup_or_null kvs ''zoom'') bs))
      | _ \<Rightarrow> None)"
| "submitted _ = None"

fun stored_by :: "request \<Rightarrow> json option" where
  "stored_by (PostUpdateView data) = submitted data"
| "stored_by GetBounds = None"
| "stored_by OtherRoute = None"

text \<open>The views stored by a run of requests, oldest first.\<close>

definition stored_views :: "request list \<Rightarrow> json list" where
  "stored_views reqs = List.map_filter stored_by reqs"

fun is_update :: "request \<Rightarrow> bool" where
  "is_update (PostUpdateView data) = True"
| "is_update GetBounds = False"
| "is_update OtherRoute = False"

section \<open>Tile coordinates (tile\_server.py)\<close>

text \<open>
  Exceptions are threaded through a computation line by line: the first one raised ends it.
\<close>

definition bind_err :: "'e + 'a \<Rightarrow> ('a \<Rightarrow> 'e + 'b) \<Rightarrow> 'e + 'b" where
  "bind_err m f = (case m of Inl e \<Rightarrow> Inl e | Inr a \<Rightarrow> f a)"

text \<open>
  \<^verbatim>\<open>tile_to_bbox\<close> computes in Python floats. Its arithmetic is the platform's: the rounded
  operations of the hardware and the C library's \<^verbatim>\<open>pow\<close>, \<^verbatim>\<open>sinh\<close> and \<^verbatim>\<open>atan\<close>. The
  function is modelled over any such arithmetic, given as a record of the operations the
  source uses, each raising where Python's can: \<^verbatim>\<open>2.0 ** z\<close> (an \<^verbatim>\<open>OverflowError\<close> from
  zoom 1024 on), an int divided by a float (the int may be too large to convert),
  \<^verbatim>\<open>math.sinh\<close> (a range error).
\<close>

record 'f float_ops =
  two_pow :: "int \<Rightarrow> py_error + 'f"
  int_truediv :: "int \<Rightarrow> 'f \<Rightarrow> py_error + 'f"
  fmul :: "'f \<Rightarrow> 'f \<Rightarrow> 'f"
  fsub :: "'f \<Rightarrow> 'f \<Rightarrow> 'f"
  literal :: "int \<Rightarrow> 'f"
  math_pi :: "'f"
  math_sinh :: "'f \<Rightarrow> py_error + 'f"
  math_atan :: "'f \<Rightarrow> 'f"
  math_degrees :: "'f \<Rightarrow> 'f"

text \<open>\<^verbatim>\<open>x / n * 360.0 - 180.0\<close>\<close>

definition lon_of :: "'f float_ops \<Rightarrow> int \<Rightarrow> 'f \<Rightarrow> py_error + 'f" where
  "lon_of ops x n =
     bind_err (int_truediv ops x n)
       (\<lambda>q. Inr (fsub ops (fmul ops q (literal ops 360)) (literal ops 180)))"

text \<open>\<^verbatim>\<open>math.degrees(math.atan(math.sinh(math.pi * (1 - 2 * y / n))))\<close>, for the int \<^verbatim>\<open>2 * y\<close>\<close>

definition lat_of :: "'f float_ops \<Rightarrow> int \<Rightarrow> 'f \<Rightarrow> py_error + 'f" where
  "lat_of ops two_y n =
     bind_err (int_truediv ops two_y n)
       (\<lambda>q. bind_err (math_sinh ops (fmul ops (math_pi ops) (fsub ops (literal ops 1) q)))
          (\<lambda>s. Inr (math_degrees ops (math_atan ops s))))"

definition tile_to_bbox ::
  "'f float_ops \<Rightarrow> int \<Rightarrow> int \<Rightarrow> int \<Rightarrow> py_error + ('f \<times> 'f \<times> 'f \<times> 'f)" where
  "tile_to_bbox ops z x y =
     bind_err (two_pow ops z) (\<lambda>n.
     bind_err (lon_of ops x n) (\<lambda>min_lon.
     bind_err (lon_of ops (x + 1) n) (\<lambda>max_lon.
     bind_err (lat_of ops (2 * y) n) (\<lambda>max_lat.
     bind_err (lat_of ops (2 * (y + 1)) n) (\<lambda>min_lat.
       Inr (min_lon, min_lat, max_lon, max_lat))))))"

section \<open>Serving a tile (tile\_server.py)\<close>

text \<open>
  The query \<^verbatim>\<open>get_tile\<close> sends is its SQL text with the tile address and the four corners
  of the bounding box filled in.
\<close>

record 'f tile_query =
  tile_z :: int
  tile_x :: int
  tile_y :: int
  min_lon :: 'f
  min_lat :: 'f
  max_lon :: 'f
  max_lat :: 'f

text \<open>
  The store is outside the program. What it answers to each call of this request is given:
  the exception a call raises, if any, and for the query the row \<^verbatim>\<open>fetchone()\<close> returns
  (no row, a row with a NULL, or a row with the tile's bytes).
\<close>

record 'f duckdb =
  connect :: "py_error option"
  load_spatial :: "py_error option"
  open_cursor :: "py_error option"
  fetchone :: "'f tile_query \<Rightarrow> py_error + string option option"
  close_cursor :: "py_error option"

text \<open>What a request does besides answering: the calls it makes and the lines it prints.\<close>

datatype 'f event =
    BBoxComputed int int int
  | Connect
  | LoadSpatial
  | Cursor
  | Execute "'f tile_query"
  | PrintTiming int int int nat
  | PrintError int int int py_error

text \<open>
  \<^verbatim>\<open>get_connection\<close>: the thread's connection, opened on the thread's first request. The
  thread-local slot is the flag \<^verbatim>\<open>hasattr(_thread_local, 'connection')\<close>; it is set only once
  both calls have succeeded.
\<close>

definition get_connection :: "'f duckdb \<Rightarrow> bool \<Rightarrow> (py_error + unit) \<times> bool \<times> 'f event list" where
  "get_connection db has_connection =
     (if has_connection then (Inr (), has_connection, [])
      else
        (case connect db of
           Some e \<Rightarrow> (Inl e, has_connection, [Connect])
         | None \<Rightarrow>
             (case load_spatial db of
                Some e \<Rightarrow> (Inl e, has_connection, [Connect, LoadSpatial])
              | None \<Rightarrow> (Inr (), True, [Connect, LoadSpatial]))))"

text \<open>\<^verbatim>\<open>Response(b'', mimetype='application/x-protobuf')\<close>\<close>

definition empty_tile :: response where
  "empty_tile = \<lparr>status = 200, content = Bytes [], mimetype = ''application/x-protobuf'', headers = []\<rparr>"

text \<open>The response of the path that reaches the store's answer.\<close>

definition tile_response :: "string \<Rightarrow> response" where
  "tile_response tile_data =
     \<lparr>status = 200, content = Bytes tile_data,
      mimetype = ''application/vnd.mapbox-vector-tile'',
      headers = [(''Cache-Control'', ''public, max-age=3600'')]\<rparr>"

text \<open>\<^verbatim>\<open>result[0] if result and result[0] else b''\<close>\<close>

definition tile_data_of :: "string option option \<Rightarrow> string" where
  "tile_data_of result =
     (case result of
        None \<Rightarrow> []
      | Some None \<Rightarrow> []
      | Some (Some bs) \<Rightarrow> if bs \<noteq> [] then bs else [])"

text \<open>Leaving the \<^verbatim>\<open>with\<close> block closes the cursor; an exception raised there replaces the outcome.\<close>

definition leave_cursor :: "'f duckdb \<Rightarrow> py_error + 'a \<Rightarrow> py_error + 'a" where
  "leave_cursor db outcome = (case close_cursor db of None \<Rightarrow> outcome | Some e \<Rightarrow> Inl e)"

text \<open>The body of the \<^verbatim>\<open>try\<close> statement of \<^verbatim>\<open>get_tile\<close>.\<close>

definition generate_tile :: "'f duckdb \<Rightarrow> 'f tile_query \<Rightarrow> (py_error + response) \<times> 'f event list" where
  "generate_tile db q =
     (case open_cursor db of
        Some e \<Rightarrow> (Inl e, [Cursor])
      | None \<Rightarrow>
          (case fetchone db q of
             Inl e \<Rightarrow> (leave_cursor db (Inl e), [Cursor, Execute q])
           | Inr result \<Rightarrow>
               (let tile_data = tile_data_of result in
                (leave_cursor db (Inr (tile_response tile_data)),
                 [Cursor, Execute q,
                  PrintTiming (tile_z q) (tile_x q) (tile_y q) (length tile_data)]))))"

text \<open>
  \<^verbatim>\<open>get_tile\<close>: the response or the exception that leaves the handler, the thread-local flag
  afterwards, and what the request did.
\<close>

definition get_tile ::
  "'f float_ops \<Rightarrow> 'f duckdb \<Rightarrow> bool \<Rightarrow> int \<Rightarrow> int \<Rightarrow> int \<Rightarrow>
     (py_error + response) \<times> bool \<times> 'f event list" where
  "get_tile ops db has_connection z x y =
     (if z < 10 then (Inr empty_tile, has_connection, [])
      else
        (case tile_to_bbox ops z x y of
           Inl e \<Rightarrow> (Inl e, has_connection, [BBoxComputed z x y])
         | Inr (lon0, lat0, lon1, lat1) \<Rightarrow>
             (case get_connection db has_connection of
                (Inl e, has_connection', evs) \<Rightarrow> (Inl e, has_connection', BBoxComputed z x y # evs)
              | (Inr con, has_connection', evs) \<Rightarrow>
                  (case generate_tile db
                          \<lparr>tile_z = z, tile_x = x, tile_y = y,
                           min_lon = lon0, min_lat = lat0, max_lon = lon1, max_lat = lat1\<rparr> of
                     (Inl e, evs') \<Rightarrow>
                       (Inr empty_tile, has_connection',
                        BBoxComputed z x y # evs @ evs' @ [PrintError z x y e])
                   | (Inr r, evs') \<Rightarrow>
                       (Inr r, has_connection', BBoxComputed z x y # evs @ evs')))))"

section \<open>The stats consumer (app.py)\<close>

text \<open>
  \<^verbatim>\<open>round(v, ndigits)\<close> on what a JSON document can hold: an int rounds to itself, a bool
  to the int it is, a float to a float; any other object raises \<^verbatim>\<open>TypeError\<close>. The rounding
  of a float to decimal places is the interpreter's, and is given.
\<close>

fun py_round :: "(pyfloat \<Rightarrow> nat \<Rightarrow> pyfloat) \<Rightarrow> json \<Rightarrow> nat \<Rightarrow> py_error + pynum" where
  "py_round round_float (JNum (PyInt i)) ndigits = Inr (PyInt i)"
| "py_round round_float (JNum (PyFloat f)) ndigits = Inr (PyFloat (round_float f ndigits))"
| "py_round round_float (JBool b) ndigits = Inr (PyInt (if b then 1 else 0))"
| "py_round round_float JNull ndigits = Inl TypeError"
| "py_round round_float (JStr s) ndigits = Inl TypeError"
| "py_round round_float (JArr xs) ndigits = Inl TypeError"
| "py_round round_float (JObj kvs) ndigits = Inl TypeError"

text \<open>\<^verbatim>\<open>round(b.get(k, 0), ndigits)\<close>\<close>

definition rounded_field ::
  "(pyfloat \<Rightarrow> nat \<Rightarrow> pyfloat) \<Rightarrow> json \<Rightarrow> string \<Rightarrow> nat \<Rightarrow> py_error + pynum" where
  "rounded_field round_float b k ndigits =
     bind_err (dict_get_default b k (JNum (PyInt 0))) (\<lambda>v. py_round round_float v ndigits)"

text \<open>
  \<^verbatim>\<open>make_bounds_key\<close>: \<^verbatim>\<open>None\<close> for falsy bounds, else the tuple of the five rounded
  fields, evaluated left to right.
\<close>

type_synonym bounds_key = "(pynum \<times> pynum \<times> pynum \<times> pynum \<times> pynum) option"

definition make_bounds_key :: "(pyfloat \<Rightarrow> nat \<Rightarrow> pyfloat) \<Rightarrow> json \<Rightarrow> py_error + bounds_key" where
  "make_bounds_key round_float b =
     (if \<not> truthy b then Inr None
      else
        bind_err (rounded_field round_float b ''north'' 4) (\<lambda>north.
        bind_err (rounded_field round_float b ''south'' 4) (\<lambda>south.
        bind_err (rounded_field round_float b ''east'' 4) (\<lambda>east.
        bind_err (rounded_field round_float b ''west'' 4) (\<lambda>west.
        bind_err (rounded_field round_float b ''zoom'' 1) (\<lambda>zoom.
          Inr (Some (north, south, east, west, zoom))))))))"

text \<open>
  Python's \<^verbatim>\<open>==\<close> on numbers: an int and a float are compared by value, and \<^verbatim>\<open>NaN\<close> equals
  nothing, itself included. (The numbers of two keys are never the same object: each poll
  parses a new document and \<^verbatim>\<open>round\<close> returns a new float.)
\<close>

fun float_eq :: "pyfloat \<Rightarrow> pyfloat \<Rightarrow> bool" where
  "float_eq (Finite r) (Finite s) = (r = s)"
| "float_eq PosInf PosInf = True"
| "float_eq NegInf NegInf = True"
| "float_eq _ _ = False"

fun num_eq :: "pynum \<Rightarrow> pynum \<Rightarrow> bool" where
  "num_eq (PyInt i) (PyInt j) = (i = j)"
| "num_eq (PyInt i) (PyFloat g) = float_eq (Finite (of_int i)) g"
| "num_eq (PyFloat f) (PyInt j) = float_eq f (Finite (of_int j))"
| "num_eq (PyFloat f) (PyFloat g) = float_eq f g"

text \<open>\<^verbatim>\<open>bounds_key != st.session_state.last_bounds\<close>: \<^verbatim>\<open>None\<close> or a tuple on either side.\<close>

fun key_ne :: "bounds_key \<Rightarrow> bounds_key \<Rightarrow> bool" where
  "key_ne None None = False"
| "key_ne None (Some t) = True"
| "key_ne (Some t) None = True"
| "key_ne (Some (n, s, e, w, z)) (Some (n', s', e', w', z')) =
     (\<not> (num_eq n n' \<and> num_eq s s' \<and> num_eq e e' \<and> num_eq w w' \<and> num_eq z z'))"

text \<open>
  The dataset as \<^verbatim>\<open>query_stats\<close> sees it: what each call raises, and the row the aggregate
  query returns for the four bounds written into its text.
\<close>

record stats_db =
  stats_connect :: "py_error option"
  stats_load_spatial :: "py_error option"
  stats_fetchone :: "json \<times> json \<times> json \<times> json \<Rightarrow> py_error + (json \<times> json) option"
  stats_close :: "py_error option"

text \<open>\<^verbatim>\<open>{'count': ..., 'area': ...}\<close>\<close>

record stats =
  stat_count :: json
  stat_area :: json

definition zero_stats :: stats where
  "zero_stats = \<lparr>stat_count = JNum (PyInt 0), stat_area = JNum (PyInt 0)\<rparr>"

text \<open>\<^verbatim>\<open>v or 0\<close>\<close>

definition or_zero :: "json \<Rightarrow> json" where
  "or_zero v = (if truthy v then v else JNum (PyInt 0))"

text \<open>
  The \<^verbatim>\<open>try\<close> statement of \<^verbatim>\<open>query_stats\<close>, whose handler returns the zero stats: the stats
  returned, and how many times the aggregate query was sent to the dataset.
\<close>

definition run_stats_query :: "stats_db \<Rightarrow> json \<times> json \<times> json \<times> json \<Rightarrow> stats \<times> nat" where
  "run_stats_query db sides =
     (case stats_connect db of
        Some e \<Rightarrow> (zero_stats, 0)
      | None \<Rightarrow>
          (case stats_load_spatial db of
             Some e \<Rightarrow> (zero_stats, 0)
           | None \<Rightarrow>
               (case stats_fetchone db sides of
                  Inl e \<Rightarrow> (zero_stats, 1)
                | Inr None \<Rightarrow> (zero_stats, 1)
                | Inr (Some (c, a)) \<Rightarrow>
                    (case stats_close db of
                       Some e \<Rightarrow> (zero_stats, 1)
                     | None \<Rightarrow> (\<lparr>stat_count = or_zero c, stat_area = or_zero a\<rparr>, 1)))))"

text \<open>\<^verbatim>\<open>query_stats\<close>: the four \<^verbatim>\<open>bounds.get\<close> calls stand before the \<^verbatim>\<open>try\<close>.\<close>

definition query_stats :: "stats_db \<Rightarrow> json \<Rightarrow> py_error + stats \<times> nat" where
  "query_stats db b =
     (if \<not> truthy b then Inr (zero_stats, 0)
      else
        bind_err (dict_get b ''north'') (\<lambda>north.
        bind_err (dict_get b ''south'') (\<lambda>south.
        bind_err (dict_get b ''east'') (\<lambda>east.
        bind_err (dict_get b ''west'') (\<lambda>west.
          Inr (run_stats_query db (east, west, north, south)))))))"

text \<open>
  \<^verbatim>\<open>st.session_state\<close> after \<^verbatim>\<open>main\<close> has initialised it: the key of the last bounds used
  and the stats shown.
\<close>

record session_state =
  last_bounds :: bounds_key
  shown_stats :: stats

definition session_init :: session_state where
  "session_init = \<lparr>last_bounds = None, shown_stats = zero_stats\<rparr>"

text \<open>
  One run of \<^verbatim>\<open>main\<close> from the poll on, given the bounds \<^verbatim>\<open>get_view_bounds()\<close> returned:
  the exception that ends the run, if any, the session afterwards, and the number of
  aggregate queries the run sent to the dataset.
\<close>

definition poll ::
  "(pyfloat \<Rightarrow> nat \<Rightarrow> pyfloat) \<Rightarrow> stats_db \<Rightarrow> session_state \<Rightarrow> json \<Rightarrow>
     py_error option \<times> session_state \<times> nat" where
  "poll round_float db sess b =
     (case make_bounds_key round_float b of
        Inl e \<Rightarrow> (Some e, sess, 0)
      | Inr bounds_key \<Rightarrow>
          if key_ne bounds_key (last_bounds sess) then
            (case query_stats db b of
               Inl e \<Rightarrow> (Some e, sess\<lparr>last_bounds := bounds_key\<rparr>, 0)
             | Inr (st, n) \<Rightarrow> (None, sess\<lparr>last_bounds := bounds_key, shown_stats := st\<rparr>, n))
          else (None, sess, 0))"

text \<open>Two keys are equal when \<^verbatim>\<open>!=\<close> is false of them.\<close>

definition key_eq :: "bounds_key \<Rightarrow> bounds_key \<Rightarrow> bool" where
  "key_eq k k' = (\<not> key_ne k k')"

section \<open>Sample environments\<close>

text \<open>
  Concrete surroundings for running the definitions: exact arithmetic on the reals as one
  arithmetic the record of float operations admits, a store that answers, and a store
  whose file cannot be opened.
\<close>

definition exact_ops :: "real float_ops" where
  "exact_ops =
     \<lparr>two_pow = (\<lambda>z. Inr (2 powr real_of_int z)),
      int_truediv = (\<lambda>i f. if f = 0 then Inl ZeroDivisionError else Inr (real_of_int i / f)),
      fmul = (\<lambda>a b. a * b),
      fsub = (\<lambda>a b. a - b),
      literal = real_of_int,
      math_pi = pi,
      math_sinh = (\<lambda>a. Inr (sinh a)),
      math_atan = arctan,
      math_degrees = (\<lambda>a. a * (180 / pi))\<rparr>"

definition answering_db :: "string \<Rightarrow> 'f duckdb" where
  "answering_db tile_bytes =
     \<lparr>connect = None, load_spatial = None, open_cursor = None,
      fetchone = (\<lambda>q. Inr (Some (Some tile_bytes))), close_cursor = None\<rparr>"

definition missing_db :: "'f duckdb" where
  "missing_db =
     \<lparr>connect = Some (StoreError ''IO Error: cannot open file''), load_spatial = None,
      open_cursor = None, fetchone = (\<lambda>q. Inr None), close_cursor = None\<rparr>"

definition failing_query_db :: "'f duckdb" where
  "failing_query_db =
     \<lparr>connect = None, load_spatial = None, open_cursor = None,
      fetchone = (\<lambda>q. Inl (StoreError ''Catalog Error: table buildings does not exist'')),
      close_cursor = None\<rparr>"

definition sample_stats_db :: stats_db where
  "sample_stats_db =
     \<lparr>stats_connect = None, stats_load_spatial = None,
      stats_fetchone = (\<lambda>sides. Inr (Some (JNum (PyInt 42), JNum (PyFloat (Finite 1234.5))))),
      stats_close = None\<rparr>"

definition sample_bounds :: json where
  "sample_bounds =
     JObj [(''north'', JNum (PyFloat (Finite 52.1))), (''south'', JNum (PyFloat (Finite 52.0))),
           (''east'', JNum (PyFloat (Finite 5.2))), (''west'', JNum (PyFloat (Finite 5.1))),
           (''zoom'', JNum (PyInt 15))]"

text \<open>A rounding that leaves every float as it is: the sample values have few decimals.\<close>

definition keep_float :: "pyfloat \<Rightarrow> nat \<Rightarrow> pyfloat" where
  "keep_float f ndigits = f"

definition sample_key :: bounds_key where
  "sample_key =
     Some (PyFloat (Finite 52.1), PyFloat (Finite 52.0), PyFloat (Finite 5.2),
           PyFloat (Finite 5.1), PyInt 15)"

definition sample_session :: session_state where
  "sample_session =
     \<lparr>last_bounds = sample_key,
      shown_stats = \<lparr>stat_count = JNum (PyInt 42), stat_area = JNum (PyFloat (Finite 1234.5))\<rparr>\<rparr>"

text \<open>A request body as the map page posts it, and the view it submits.\<close>

definition sample_body :: json where
  "sample_body =
     JObj [(''bounds'',
            JObj [(''north'', JNum (PyFloat (Finite 52.1))), (''south'', JNum (PyFloat (Finite 52.0))),
                  (''east'', JNum (PyFloat (Finite 5.2))), (''west'', JNum (PyFloat (Finite 5.1)))]),
           (''zoom'', JNum (PyInt 15))]"

section \<open>Auxiliary notions of the proofs\<close>

text \<open>The error line of \<^verbatim>\<open>get_tile\<close>'s exception handler.\<close>

fun is_print_error :: "'f event \<Rightarrow> bool" where
  "is_print_error (PrintError z x y e) = True"
| "is_print_error (BBoxComputed z x y) = False"
| "is_print_error Connect = False"
| "is_print_error LoadSpatial = False"
| "is_print_error Cursor = False"
| "is_print_error (Execute q) = False"
| "is_print_error (PrintTiming z x y n) = False"

text \<open>The value a number is compared by.\<close>

fun num_value :: "pynum \<Rightarrow> pyfloat" where
  "num_value (PyInt i) = Finite (of_int i)"
| "num_value (PyFloat f) = f"

section \<open>The register: facts about \<open>update_view\<close> and \<open>get_bounds\<close>\<close>

lemma dict_get_obj: "dict_get (JObj kvs) k = Inr (lookup_or_null kvs k)"
  by (simp add: dict_get_def lookup_or_null_def)

lemma update_view_obj:
  "update_view cs (JObj kvs) =
     (if \<not> truthy (lookup_or_null kvs ''bounds'') then (Inr no_bounds_response, cs)
      else case set_item (lookup_or_null kvs ''bounds'') ''zoom'' (lookup_or_null kvs ''zoom'') of
             Inl e \<Rightarrow> (Inl e, cs)
           | Inr b' \<Rightarrow> (Inr ok_response, cs\<lparr>bounds := b'\<rparr>))"
  by (simp add: update_view_def dict_get_obj)

lemma ok_not_error: "ok_response \<noteq> no_bounds_response"
  by (simp add: ok_response_def no_bounds_response_def jsonify_def)

lemma update_view_submitted:
  "submitted data = Some v \<Longrightarrow> update_view cs data = (Inr ok_response, cs\<lparr>bounds := v\<rparr>)"
  by (cases data) (auto simp add: update_view_obj split: json.splits if_splits)

lemma update_view_not_submitted:
  "submitted data = None \<Longrightarrow> snd (update_view cs data) = cs"
proof (cases data)
  case (JObj kvs)
  assume "submitted data = None"
  with JObj show ?thesis
    by (cases "lookup_or_null kvs ''bounds''")
       (auto simp add: update_view_obj split: if_splits pynum.splits)
qed (simp_all add: update_view_def dict_get_def)

text \<open>An update is acknowledged exactly when it submits a view.\<close>

lemma update_view_ok_iff_submitted:
  "(fst (update_view cs data) = Inr ok_response) = (submitted data \<noteq> None)"
proof (cases data)
  case (JObj kvs)
  then show ?thesis
    by (cases "lookup_or_null kvs ''bounds''")
       (auto simp add: update_view_obj ok_not_error ok_not_error[symmetric]
          split: if_splits pynum.splits)
qed (simp_all add: update_view_def dict_get_def)

lemma handle_bounds:
  "bounds (handle cs r) = (case stored_by r of None \<Rightarrow> bounds cs | Some v \<Rightarrow> v)"
proof (cases r)
  case (PostUpdateView data)
  then show ?thesis
    by (cases "submitted data") (simp_all add: update_view_submitted update_view_not_submitted)
qed simp_all

lemma map_filter_snoc:
  "List.map_filter f (xs @ [x]) = List.map_filter f xs @ (case f x of None \<Rightarrow> [] | Some y \<Rightarrow> [y])"
  by (simp add: List.map_filter_def split: option.splits)

lemma serve_bounds:
  "bounds (serve reqs) = (if stored_views reqs = [] then JNull else last (stored_views reqs))"
proof (induction reqs rule: rev_induct)
  case Nil
  then show ?case
    by (simp add: serve_def stored_views_def current_stats_init_def List.map_filter_def)
next
  case (snoc r reqs)
  have "serve (reqs @ [r]) = handle (serve reqs) r" by (simp add: serve_def)
  with snoc show ?case
    by (cases "stored_by r") (simp_all add: handle_bounds stored_views_def map_filter_snoc)
qed

lemma no_update_no_view: "\<forall>r \<in> set reqs. \<not> is_update r \<Longrightarrow> stored_views reqs = []"
proof (induction reqs)
  case Nil
  then show ?case by (simp add: stored_views_def List.map_filter_def)
next
  case (Cons r reqs)
  then show ?case by (cases r) (simp_all add: stored_views_def List.map_filter_def)
qed

text \<open>
  C8, as stated: \<^verbatim>\<open>/update-view\<close> answers 400 if and only if the body lacks a bounds value.
  It fails for the body \<^verbatim>\<open>{"bounds": {}}\<close>: the body has a bounds value, an object, and
  the answer is the 400 error, because the handler tests the truth value of the bounds.
\<close>

theorem update_view_empty_bounds_rejected:
  "\<not> lacks_bounds (JObj [(''bounds'', JObj [])]) \<and>
   update_view current_stats_init (JObj [(''bounds'', JObj [])]) =
     (Inr no_bounds_response, current_stats_init) \<and>
   status no_bounds_response = 400"
  by (simp add: update_view_obj lookup_or_null_def no_bounds_response_def)

text \<open>
  C8, amended: for a request body that is a JSON object, \<^verbatim>\<open>/update-view\<close> answers with
  HTTP 400 and the JSON error status if and only if the bounds are absent or falsy
  (\<^verbatim>\<open>null\<close>, \<^verbatim>\<open>false\<close>, zero, an empty string, array or object); when the bounds are a
  non-empty object it overwrites the register with the bounds, the body's zoom stored
  under their key \<^verbatim>\<open>zoom\<close>, and answers \<^verbatim>\<open>{"status": "ok"}\<close> with HTTP 200.
\<close>

theorem update_view_answers:
  "(fst (update_view cs (JObj kvs)) = Inr no_bounds_response) =
     (\<not> truthy (lookup_or_null kvs ''bounds''))
   \<and> (lookup_or_null kvs ''bounds'' = JObj bs \<and> bs \<noteq> [] \<longrightarrow>
        update_view cs (JObj kvs) =
          (Inr ok_response,
           cs\<lparr>bounds := JObj (AList.update ''zoom'' (lookup_or_null kvs ''zoom'') bs)\<rparr>))
   \<and> status no_bounds_response = 400
   \<and> content no_bounds_response =
        Json (JObj [(''status'', JStr ''error''), (''message'', JStr ''No bounds provided'')])
   \<and> status ok_response = 200
   \<and> content ok_response = Json (JObj [(''status'', JStr ''ok'')])"
  by (auto simp add: update_view_obj ok_not_error no_bounds_response_def ok_response_def
      jsonify_def split: sum.splits)

theorem update_view_answers_witness:
  "lookup_or_null [(''bounds'', JObj [(''north'', JNum (PyInt 53))]), (''zoom'', JNum (PyInt 12))]
     ''bounds'' = JObj [(''north'', JNum (PyInt 53))]
   \<and> [(''north'', JNum (PyInt 53))] \<noteq> []
   \<and> update_view current_stats_init
        (JObj [(''bounds'', JObj [(''north'', JNum (PyInt 53))]), (''zoom'', JNum (PyInt 12))]) =
      (Inr ok_response,
       current_stats_init
         \<lparr>bounds := JObj [(''north'', JNum (PyInt 53)), (''zoom'', JNum (PyInt 12))]\<rparr>)"
  using update_view_answers
    [of current_stats_init
        "[(''bounds'', JObj [(''north'', JNum (PyInt 53))]), (''zoom'', JNum (PyInt 12))]"
        "[(''north'', JNum (PyInt 53))]"]
  by (simp add: lookup_or_null_def)

text \<open>
  C9: \<^verbatim>\<open>/get-bounds\<close> answers \<^verbatim>\<open>{"bounds": null}\<close> as long as no \<^verbatim>\<open>/update-view\<close> request has
  completed, and otherwise the bounds value stored by the most recent update that stored
  one: after any run of requests from the module's initial state, the answer holds the
  last of the stored views, and \<^verbatim>\<open>null\<close> when there is none, as is the case when the run
  has no update at all.
\<close>

theorem get_bounds_last_write_wins:
  "get_bounds (serve reqs) =
     jsonify (JObj [(''bounds'',
                     if stored_views reqs = [] then JNull else last (stored_views reqs))])
   \<and> ((\<forall>r \<in> set reqs. \<not> is_update r) \<longrightarrow>
        get_bounds (serve reqs) = jsonify (JObj [(''bounds'', JNull)]))"
  using no_update_no_view[of reqs] by (simp add: get_bounds_def serve_bounds)

theorem get_bounds_last_write_wins_witness:
  "(\<not> is_update GetBounds \<and> \<not> is_update OtherRoute)
   \<and> get_bounds (serve [GetBounds, OtherRoute]) = jsonify (JObj [(''bounds'', JNull)])"
  using get_bounds_last_write_wins [of "[GetBounds, OtherRoute]"]
  by (simp add: stored_views_def List.map_filter_def)

text \<open>A run with two updates, the second without a zoom: the second view is the one read.\<close>

lemma get_bounds_after_two_updates:
  "get_bounds (serve [PostUpdateView sample_body, GetBounds,
                      PostUpdateView (JObj [(''bounds'', JObj [(''north'', JNum (PyInt 53))])]),
                      PostUpdateView (JObj [(''bounds'', JObj [])])]) =
     jsonify (JObj [(''bounds'', JObj [(''north'', JNum (PyInt 53)), (''zoom'', JNull)])])"
  by (simp add: serve_bounds get_bounds_def stored_views_def List.map_filter_def
      sample_body_def lookup_or_null_def)

text \<open>
  C10, as stated: every truthy bounds value, of any shape, comes back from \<^verbatim>\<open>/get-bounds\<close>
  with the key \<^verbatim>\<open>zoom\<close> added. It fails for the truthy array \<^verbatim>\<open>[1]\<close>: the item
  assignment raises \<^verbatim>\<open>TypeError\<close>, the register keeps its old value, and \<^verbatim>\<open>/get-bounds\<close>
  answers \<^verbatim>\<open>{"bounds": null}\<close>.
\<close>

theorem update_view_array_bounds_not_stored:
  "truthy (JArr [JNum (PyInt 1)]) \<and>
   update_view current_stats_init
       (JObj [(''bounds'', JArr [JNum (PyInt 1)]), (''zoom'', JNum (PyInt 12))]) =
     (Inl TypeError, current_stats_init) \<and>
   get_bounds (snd (update_view current_stats_init
       (JObj [(''bounds'', JArr [JNum (PyInt 1)]), (''zoom'', JNum (PyInt 12))]))) =
     jsonify (JObj [(''bounds'', JNull)])"
  by (simp add: update_view_obj lookup_or_null_def get_bounds_def current_stats_init_def)

text \<open>
  C10, amended: for every non-empty JSON object as bounds, whatever its keys and values,
  and any zoom (\<^verbatim>\<open>null\<close> when the body has none), \<^verbatim>\<open>/update-view\<close> followed by
  \<^verbatim>\<open>/get-bounds\<close> returns the submitted object with the key \<^verbatim>\<open>zoom\<close> set to the submitted
  zoom: every other key keeps its value, and a \<^verbatim>\<open>zoom\<close> the bounds already had is replaced.
\<close>

theorem update_then_get_round_trip:
  assumes "lookup_or_null kvs ''bounds'' = JObj bs" and "bs \<noteq> []"
  shows "\<exists>bs'. get_bounds (snd (update_view cs (JObj kvs))) = jsonify (JObj [(''bounds'', JObj bs')])
           \<and> map_of bs' = (map_of bs)(''zoom'' \<mapsto> lookup_or_null kvs ''zoom'')
           \<and> fst ` set bs' = insert ''zoom'' (fst ` set bs)
           \<and> bs' = AList.update ''zoom'' (lookup_or_null kvs ''zoom'') bs"
  using assms by (simp add: update_view_obj get_bounds_def update_conv' dom_update)

theorem update_then_get_round_trip_witness:
  "lookup_or_null [(''bounds'', JObj [(''zoom'', JStr ''old''), (''n'', JBool True)])] ''bounds'' =
     JObj [(''zoom'', JStr ''old''), (''n'', JBool True)]
   \<and> [(''zoom'', JStr ''old''), (''n'', JBool True)] \<noteq> []
   \<and> get_bounds (snd (update_view current_stats_init
        (JObj [(''bounds'', JObj [(''zoom'', JStr ''old''), (''n'', JBool True)])]))) =
      jsonify (JObj [(''bounds'', JObj [(''zoom'', JNull), (''n'', JBool True)])])"
proof -
  have b: "lookup_or_null [(''bounds'', JObj [(''zoom'', JStr ''old''), (''n'', JBool True)])] ''bounds'' =
     JObj [(''zoom'', JStr ''old''), (''n'', JBool True)]"
    by (simp add: lookup_or_null_def)
  have n: "[(''zoom'', JStr ''old''), (''n'', JBool True)] \<noteq> []" by simp
  from update_then_get_round_trip [OF b n, of current_stats_init] b n show ?thesis
    by (auto simp add: lookup_or_null_def)
qed

section \<open>Tile coordinates: facts about \<open>tile_to_bbox\<close>\<close>

lemma bind_err_Inr: "bind_err m f = Inr b \<Longrightarrow> \<exists>a. m = Inr a \<and> f a = Inr b"
  by (cases m) (simp_all add: bind_err_def)

text \<open>What \<^verbatim>\<open>tile_to_bbox\<close> returns, when it returns: each corner by its own formula.\<close>

lemma tile_to_bbox_Inr:
  assumes "tile_to_bbox ops z x y = Inr (lon0, lat0, lon1, lat1)"
  shows "\<exists>n. two_pow ops z = Inr n \<and> lon_of ops x n = Inr lon0 \<and> lon_of ops (x + 1) n = Inr lon1
           \<and> lat_of ops (2 * y) n = Inr lat1 \<and> lat_of ops (2 * (y + 1)) n = Inr lat0"
proof -
  from assms obtain n where n: "two_pow ops z = Inr n"
    by (auto simp add: tile_to_bbox_def dest!: bind_err_Inr)
  with assms show ?thesis
    by (auto simp add: tile_to_bbox_def bind_err_def split: sum.splits)
qed

text \<open>
  Whatever the arithmetic, two neighbouring tiles meet in one and the same float: the
  east edge of a tile and the west edge of its right neighbour are computed by the same
  expression from the same int, and so are the south edge of a tile and the north edge of
  the tile below it.
\<close>

lemma tile_to_bbox_shared_edges:
  assumes "tile_to_bbox ops z x y = Inr (lon0, lat0, lon1, lat1)"
  shows "tile_to_bbox ops z (x + 1) y = Inr (a, b, c, d) \<Longrightarrow> a = lon1"
    and "tile_to_bbox ops z x (y + 1) = Inr (a', b', c', d') \<Longrightarrow> d' = lat0"
proof -
  from tile_to_bbox_Inr[OF assms] obtain n where
    n: "two_pow ops z = Inr n" and e: "lon_of ops (x + 1) n = Inr lon1"
    and s: "lat_of ops (2 * (y + 1)) n = Inr lat0" by blast
  show "a = lon1" if "tile_to_bbox ops z (x + 1) y = Inr (a, b, c, d)"
    using tile_to_bbox_Inr[OF that] n e by auto
  show "d' = lat0" if "tile_to_bbox ops z x (y + 1) = Inr (a', b', c', d')"
    using tile_to_bbox_Inr[OF that] n s by auto
qed

text \<open>
  In exact arithmetic the function always returns, the box of every tile has a positive
  width and height, and tile 0/0/0 spans the longitudes from -180 to 180. (Python's
  floats are not exact: the statements below are about the formulas, not about the
  rounded results.)
\<close>

lemma tile_to_bbox_exact:
  "tile_to_bbox exact_ops z x y =
     Inr (real_of_int x / 2 powr real_of_int z * 360 - 180,
          arctan (sinh (pi * (1 - real_of_int (2 * (y + 1)) / 2 powr real_of_int z))) * (180 / pi),
          real_of_int (x + 1) / 2 powr real_of_int z * 360 - 180,
          arctan (sinh (pi * (1 - real_of_int (2 * y) / 2 powr real_of_int z))) * (180 / pi))"
  by (simp add: tile_to_bbox_def lon_of_def lat_of_def bind_err_def exact_ops_def)

lemma tile_to_bbox_exact_ordered:
  assumes "tile_to_bbox exact_ops z x y = Inr (lon0, lat0, lon1, lat1)"
  shows "lon0 < lon1 \<and> lat0 < lat1"
proof -
  define n where "n = 2 powr real_of_int z"
  have n: "0 < n" by (simp add: n_def)
  have "real_of_int x / n < real_of_int (x + 1) / n"
    using n by (simp add: divide_strict_right_mono)
  then have "real_of_int x / n * 360 < real_of_int (x + 1) / n * 360"
    by (rule mult_strict_right_mono) simp
  then have lon: "real_of_int x / n * 360 - 180 < real_of_int (x + 1) / n * 360 - 180"
    by (rule diff_strict_right_mono)
  have "real_of_int (2 * y) / n < real_of_int (2 * (y + 1)) / n"
    using n by (simp add: divide_strict_right_mono)
  then have "1 - real_of_int (2 * (y + 1)) / n < 1 - real_of_int (2 * y) / n"
    by (rule diff_strict_left_mono)
  then have "pi * (1 - real_of_int (2 * (y + 1)) / n) < pi * (1 - real_of_int (2 * y) / n)"
    by (rule mult_strict_left_mono) (rule pi_gt_zero)
  then have "arctan (sinh (pi * (1 - real_of_int (2 * (y + 1)) / n)))
           < arctan (sinh (pi * (1 - real_of_int (2 * y) / n)))"
    by (simp only: arctan_less_iff sinh_real_less_iff)
  then have lat: "arctan (sinh (pi * (1 - real_of_int (2 * (y + 1)) / n))) * (180 / pi)
           < arctan (sinh (pi * (1 - real_of_int (2 * y) / n))) * (180 / pi)"
    by (rule mult_strict_right_mono) (simp add: pi_gt_zero)
  from assms have "lon0 = real_of_int x / n * 360 - 180"
    and "lon1 = real_of_int (x + 1) / n * 360 - 180"
    and "lat0 = arctan (sinh (pi * (1 - real_of_int (2 * (y + 1)) / n))) * (180 / pi)"
    and "lat1 = arctan (sinh (pi * (1 - real_of_int (2 * y) / n))) * (180 / pi)"
    unfolding tile_to_bbox_exact n_def by simp_all
  with lon lat show ?thesis by simp
qed

lemma tile_to_bbox_exact_world:
  "\<exists>lat0 lat1. tile_to_bbox exact_ops 0 0 0 = Inr (- 180, lat0, 180, lat1)"
  by (simp add: tile_to_bbox_exact)

section \<open>Serving a tile: facts about \<open>get_tile\<close>\<close>

lemma get_connection_events:
  "get_connection db hc = (r, hc', evs) \<Longrightarrow> \<forall>ev \<in> set evs. \<not> is_print_error ev"
  by (auto simp add: get_connection_def split: if_splits option.splits)

lemma generate_tile_events:
  "generate_tile db q = (r, evs) \<Longrightarrow> \<forall>ev \<in> set evs. \<not> is_print_error ev"
  by (auto simp add: generate_tile_def Let_def split: option.splits sum.splits)

lemma generate_tile_response:
  "generate_tile db q = (Inr r, evs) \<Longrightarrow> \<exists>d. r = tile_response d"
  by (auto simp add: generate_tile_def leave_cursor_def Let_def split: option.splits sum.splits)

text \<open>
  The three ways \<^verbatim>\<open>get_tile\<close> returns a response: the short-circuit below zoom 10, the
  exception handler, and the end of the \<^verbatim>\<open>try\<close> block.
\<close>

lemma get_tile_cases:
  assumes "get_tile ops db hc z x y = (Inr r, hc', evs)"
  shows "(z < 10 \<and> r = empty_tile \<and> evs = []) \<or>
         (10 \<le> z \<and> r = empty_tile \<and> (\<exists>e. PrintError z x y e \<in> set evs)) \<or>
         (10 \<le> z \<and> (\<exists>d. r = tile_response d) \<and> (\<forall>ev \<in> set evs. \<not> is_print_error ev))"
proof (cases "z < 10")
  case True
  with assms show ?thesis by (simp add: get_tile_def)
next
  case False
  from assms False obtain bb where bb: "tile_to_bbox ops z x y = Inr bb"
    by (cases "tile_to_bbox ops z x y") (simp_all add: get_tile_def)
  obtain lon0 lat0 lon1 lat1 where bbq: "bb = (lon0, lat0, lon1, lat1)" by (cases bb) auto
  obtain c hc1 evs1 where gc: "get_connection db hc = (c, hc1, evs1)"
    by (cases "get_connection db hc") auto
  from assms False bb bbq gc obtain u where c: "c = Inr u"
    by (cases c) (simp_all add: get_tile_def)
  let ?q = "\<lparr>tile_z = z, tile_x = x, tile_y = y,
             min_lon = lon0, min_lat = lat0, max_lon = lon1, max_lat = lat1\<rparr>"
  obtain g evs2 where gen: "generate_tile db ?q = (g, evs2)"
    by (cases "generate_tile db ?q") auto
  show ?thesis
  proof (cases g)
    case (Inl e)
    with assms False bb bbq gc c gen
    have "r = empty_tile" and "evs = BBoxComputed z x y # evs1 @ evs2 @ [PrintError z x y e]"
      by (simp_all add: get_tile_def)
    with False show ?thesis by auto
  next
    case (Inr r0)
    with assms False bb bbq gc c gen
    have r: "r = r0" and evs: "evs = BBoxComputed z x y # evs1 @ evs2"
      by (simp_all add: get_tile_def)
    from gen Inr have "\<exists>d. r0 = tile_response d" by (simp add: generate_tile_response)
    moreover from get_connection_events[OF gc] generate_tile_events[OF gen] evs
    have "\<forall>ev \<in> set evs. \<not> is_print_error ev" by auto
    ultimately show ?thesis using False r by auto
  qed
qed

text \<open>
  Once the thread has its connection, every exception of the cursor, the query or the
  closing of the cursor ends in the handler: the request is answered with the empty tile
  and the error is printed.
\<close>

lemma get_tile_catches_query_errors:
  assumes "10 \<le> z" and "tile_to_bbox ops z x y = Inr bb"
      and "get_connection db hc = (Inr u, hc1, evs1)"
  shows "\<exists>r evs. get_tile ops db hc z x y = (Inr r, hc1, evs)"
proof -
  obtain lon0 lat0 lon1 lat1 where bbq: "bb = (lon0, lat0, lon1, lat1)" by (cases bb) auto
  let ?q = "\<lparr>tile_z = z, tile_x = x, tile_y = y,
             min_lon = lon0, min_lat = lat0, max_lon = lon1, max_lat = lat1\<rparr>"
  obtain g evs2 where gen: "generate_tile db ?q = (g, evs2)"
    by (cases "generate_tile db ?q") auto
  from assms bbq gen show ?thesis
    by (cases g) (simp_all add: get_tile_def)
qed

text \<open>
  A sample run of the handler: the query of tile 12/2108/1354 raises on a thread that has
  its connection; the answer is the empty tile and the error is printed.
\<close>

lemma get_tile_query_error_degrades:
  "\<exists>evs. get_tile exact_ops failing_query_db True 12 2108 1354 = (Inr empty_tile, True, evs)
     \<and> last evs =
         PrintError 12 2108 1354 (StoreError ''Catalog Error: table buildings does not exist'')"
  by (simp add: get_tile_def tile_to_bbox_exact get_connection_def generate_tile_def
      failing_query_db_def leave_cursor_def)

text \<open>
  C2: for every tile request with z < 10, \<^verbatim>\<open>get_tile\<close> returns an empty tile body (zero
  bytes) and does nothing else: no bounding box is computed, no connection is acquired (the
  thread-local slot is as before), no query is executed.
\<close>

theorem get_tile_low_zoom_short_circuit:
  "z < 10 \<Longrightarrow>
     get_tile ops db hc z x y = (Inr empty_tile, hc, []) \<and> content empty_tile = Bytes [] \<and>
     status empty_tile = 200"
  by (simp add: get_tile_def empty_tile_def)

theorem get_tile_low_zoom_short_circuit_witness:
  "(9::int) < 10 \<and>
   get_tile exact_ops (answering_db ''tile'') False 9 263 168 = (Inr empty_tile, False, []) \<and>
   content empty_tile = Bytes []"
  using get_tile_low_zoom_short_circuit [of 9 exact_ops "answering_db ''tile''" False 263 168]
  by simp

text \<open>
  C4, at its failing input: a request for tile 10/0/0 on a thread that has no connection
  yet, while \<^verbatim>\<open>duckdb.connect\<close> raises. \<^verbatim>\<open>get_connection()\<close> is called before the \<^verbatim>\<open>try\<close>
  statement, so the exception leaves \<^verbatim>\<open>get_tile\<close>: no response is returned and nothing is
  printed.
\<close>

theorem get_tile_connect_error_propagates:
  "get_tile exact_ops missing_db False 10 0 0 =
     (Inl (StoreError ''IO Error: cannot open file''), False, [BBoxComputed 10 0 0, Connect])"
  by (simp add: get_tile_def tile_to_bbox_def lon_of_def lat_of_def bind_err_def exact_ops_def
      get_connection_def missing_db_def)

text \<open>
  C7, as stated: every response to a tile request, the empty ones included, carries the
  cache directive. It fails at zoom 9: the short-circuit's response has no
  \<^verbatim>\<open>Cache-Control\<close> header.
\<close>

theorem get_tile_low_zoom_no_cache_header:
  "fst (get_tile exact_ops (answering_db ''tile'') False 9 0 0) = Inr empty_tile \<and>
   map_of (headers empty_tile) ''Cache-Control'' = None \<and>
   mimetype empty_tile = ''application/x-protobuf''"
  by (simp add: get_tile_def empty_tile_def)

text \<open>
  C7, amended: a response to a tile request carries the content type
  \<^verbatim>\<open>application/vnd.mapbox-vector-tile\<close> and the header \<^verbatim>\<open>Cache-Control: public, max-age=3600\<close>
  when it is built from the store's answer (zoom at least 10 and no exception in the
  \<^verbatim>\<open>try\<close> block); the empty responses of the short-circuit below zoom 10 and of the
  exception handler carry the content type \<^verbatim>\<open>application/x-protobuf\<close> and no header.
\<close>

theorem get_tile_response_headers:
  assumes "get_tile ops db hc z x y = (Inr r, hc', evs)"
  shows "(if z < 10 \<or> (\<exists>e. PrintError z x y e \<in> set evs)
          then r = empty_tile \<and> mimetype r = ''application/x-protobuf'' \<and> headers r = []
          else mimetype r = ''application/vnd.mapbox-vector-tile'' \<and>
               headers r = [(''Cache-Control'', ''public, max-age=3600'')])"
  using get_tile_cases[OF assms]
  by (auto simp add: empty_tile_def tile_response_def)

theorem get_tile_response_headers_witness:
  "fst (get_tile exact_ops (answering_db ''tile'') False 10 0 0) = Inr (tile_response ''tile'') \<and>
   mimetype (tile_response ''tile'') = ''application/vnd.mapbox-vector-tile'' \<and>
   headers (tile_response ''tile'') = [(''Cache-Control'', ''public, max-age=3600'')]"
proof -
  obtain hc' evs where
    g: "get_tile exact_ops (answering_db ''tile'') False 10 0 0 =
          (Inr (tile_response ''tile''), hc', evs)"
    and evs: "\<forall>ev \<in> set evs. \<not> is_print_error ev"
    by (simp add: get_tile_def tile_to_bbox_def lon_of_def lat_of_def bind_err_def exact_ops_def
        get_connection_def answering_db_def generate_tile_def leave_cursor_def tile_data_of_def)
  from evs have "\<not> (\<exists>e. PrintError 10 0 0 e \<in> set evs)" by fastforce
  with get_tile_response_headers [OF g] g show ?thesis by simp
qed

section \<open>The stats consumer: facts about \<open>poll\<close>\<close>

lemma float_eq_sym: "float_eq f g \<Longrightarrow> float_eq g f"
  by (cases f; cases g) simp_all

lemma float_eq_trans: "float_eq f g \<Longrightarrow> float_eq g h \<Longrightarrow> float_eq f h"
  by (cases f; cases g; cases h) simp_all

lemma num_eq_value: "num_eq a b = float_eq (num_value a) (num_value b)"
  by (cases a; cases b) simp_all

lemma num_eq_sym: "num_eq a b \<Longrightarrow> num_eq b a"
  by (simp add: num_eq_value float_eq_sym)

lemma num_eq_trans: "num_eq a b \<Longrightarrow> num_eq b c \<Longrightarrow> num_eq a c"
  unfolding num_eq_value by (rule float_eq_trans)

lemma key_eq_sym: "key_eq k k' \<Longrightarrow> key_eq k' k"
  by (cases "(k, k')" rule: key_ne.cases) (auto simp add: key_eq_def dest: num_eq_sym)

lemma key_eq_trans:
  assumes "key_eq k k'" and "key_eq k' k''"
  shows "key_eq k k''"
proof (cases k)
  case None
  with assms show ?thesis by (cases k'; cases k'') (simp_all add: key_eq_def)
next
  case (Some t)
  with assms obtain t' where k': "k' = Some t'" by (cases k') (simp_all add: key_eq_def)
  with assms obtain t'' where k'': "k'' = Some t''" by (cases k'') (simp_all add: key_eq_def)
  obtain n s e w z where t: "t = (n, s, e, w, z)" by (cases t) auto
  obtain n' s' e' w' z' where t': "t' = (n', s', e', w', z')" by (cases t') auto
  obtain n'' s'' e'' w'' z'' where t'': "t'' = (n'', s'', e'', w'', z'')" by (cases t'') auto
  from assms Some k' k'' t t' t'' show ?thesis
    by (auto simp add: key_eq_def intro: num_eq_trans)
qed

lemma run_stats_query_once: "snd (run_stats_query db sides) \<le> 1"
  by (simp add: run_stats_query_def split: option.splits sum.splits prod.splits)

lemma query_stats_once: "query_stats db b = Inr (st, n) \<Longrightarrow> n \<le> 1"
  using run_stats_query_once
  by (auto simp add: query_stats_def bind_err_def split: if_splits sum.splits)
     (metis snd_conv)

lemma poll_once: "poll rf db sess b = (err, sess', n) \<Longrightarrow> n \<le> 1"
  by (auto simp add: poll_def split: sum.splits if_splits dest: query_stats_once)

lemma poll_same_key:
  "make_bounds_key rf b = Inr k \<Longrightarrow> key_eq k (last_bounds sess) \<Longrightarrow>
   poll rf db sess b = (None, sess, 0)"
  by (simp add: poll_def key_eq_def)

lemma poll_last_bounds:
  assumes "make_bounds_key rf b = Inr k" and "poll rf db sess b = (err, sess', n)"
  shows "(key_eq k (last_bounds sess) \<and> sess' = sess) \<or> last_bounds sess' = k"
  using assms by (auto simp add: poll_def key_eq_def split: sum.splits if_splits)

text \<open>
  C3: the stats are recomputed only when the rounded key of the current bounds differs
  from the key stored by the previous computation. A poll sends at most one aggregate
  query; a poll whose key equals the stored one sends none and leaves the session as it
  is; and of two consecutive polls whose bounds have equal keys the second sends none, so
  that both together send at most one. (The dataset may answer the two polls differently.)
\<close>

theorem stats_recomputed_only_on_new_key:
  assumes "poll rf db sess b = (err, sess', n)"
      and "poll rf db' sess' b' = (err', sess'', n')"
  shows "n \<le> 1 \<and> n' \<le> 1 \<and>
         (\<forall>k. make_bounds_key rf b = Inr k \<and> key_eq k (last_bounds sess) \<longrightarrow>
                 n = 0 \<and> sess' = sess) \<and>
         (\<forall>k k'. make_bounds_key rf b = Inr k \<and> make_bounds_key rf b' = Inr k' \<and> key_eq k k' \<longrightarrow>
                 n' = 0 \<and> sess'' = sess' \<and> n + n' \<le> 1)"
proof -
  have n: "n \<le> 1" and n': "n' \<le> 1" using assms by (auto dest: poll_once)
  have first: "n = 0 \<and> sess' = sess"
    if "make_bounds_key rf b = Inr k" and "key_eq k (last_bounds sess)" for k
    using poll_same_key[OF that, of db] assms(1) by simp
  have second: "n' = 0 \<and> sess'' = sess' \<and> n + n' \<le> 1"
    if k: "make_bounds_key rf b = Inr k" and k': "make_bounds_key rf b' = Inr k'"
      and eq: "key_eq k k'" for k k'
  proof -
    have "key_eq k' (last_bounds sess')"
    proof -
      from poll_last_bounds[OF k assms(1)]
      consider "key_eq k (last_bounds sess)" and "sess' = sess" | "last_bounds sess' = k"
        by blast
      then show ?thesis
      proof cases
        case 1
        then show ?thesis using eq by (auto intro: key_eq_trans key_eq_sym)
      next
        case 2
        then show ?thesis using eq by (auto intro: key_eq_sym)
      qed
    qed
    from poll_same_key[OF k' this, of db'] assms(2) n show ?thesis by simp
  qed
  from n n' first second show ?thesis by blast
qed

lemma sample_bounds_key: "make_bounds_key keep_float sample_bounds = Inr sample_key"
  by (simp add: make_bounds_key_def sample_bounds_def sample_key_def rounded_field_def
      bind_err_def keep_float_def)

lemma sample_first_poll:
  "poll keep_float sample_stats_db session_init sample_bounds = (None, sample_session, 1)"
  by (simp add: poll_def sample_bounds_key)
     (simp add: sample_key_def session_init_def sample_session_def query_stats_def
        sample_bounds_def dict_get_def bind_err_def run_stats_query_def sample_stats_db_def
        or_zero_def)

lemma sample_second_poll:
  "poll keep_float sample_stats_db sample_session sample_bounds = (None, sample_session, 0)"
  by (simp add: poll_def sample_bounds_key) (simp add: sample_key_def sample_session_def)

theorem stats_recomputed_only_on_new_key_witness:
  "poll keep_float sample_stats_db session_init sample_bounds = (None, sample_session, 1) \<and>
   poll keep_float sample_stats_db sample_session sample_bounds = (None, sample_session, 0) \<and>
   make_bounds_key keep_float sample_bounds = Inr sample_key \<and>
   key_eq sample_key sample_key \<and>
   (1::nat) + 0 \<le> 1"
proof -
  have eq: "key_eq sample_key sample_key" by (simp add: key_eq_def sample_key_def)
  from stats_recomputed_only_on_new_key [OF sample_first_poll sample_second_poll]
    sample_first_poll sample_second_poll sample_bounds_key eq
  show ?thesis by blast
qed

end
